theory Spec2Isabelle
  imports Main
begin

section \<open>Python values, exceptions and built-in operations\<close>

text \<open>
  The collector handles values decoded from JSON and stores one of them in
  \<open>_last_timestamp\<close>, so the model keeps Python's dynamic typing: a \<open>pyval\<close> is what
  \<open>response.json()\<close> can yield. JSON numbers are restricted to integers (Duo's
  timestamps are unix seconds); floating point values are not represented. A dict is an
  association list read with \<open>map_of\<close>; its keys are strings, as the keys of every
  decoded JSON object are.
\<close>

datatype pyval =
    PNone
  | PBool bool
  | PInt int
  | PStr string
  | PList "pyval list"
  | PDict "(string \<times> pyval) list"

datatype exn = TypeError | KeyError | IndexError | ValueError | RequestException

text \<open>
  \<open>seq[i]\<close> for an integer \<open>i\<close>: a negative index counts from the end, and an index
  outside the sequence raises IndexError (\<open>None\<close> here).
\<close>

definition seq_index :: "'a list \<Rightarrow> int \<Rightarrow> 'a option" where
  "seq_index xs i =
     (let len = int (length xs);
          pos = (if i < 0 then i + len else i)
      in if pos < 0 \<or> len \<le> pos then None else Some (xs ! nat pos))"

text \<open>\<open>v[i]\<close> with an integer subscript, and \<open>v[k]\<close> with a string subscript.\<close>

fun py_getitem_int :: "pyval \<Rightarrow> int \<Rightarrow> exn + pyval" where
  "py_getitem_int (PList xs) i =
     (case seq_index xs i of None \<Rightarrow> Inl IndexError | Some v \<Rightarrow> Inr v)"
| "py_getitem_int (PStr s) i =
     (case seq_index s i of None \<Rightarrow> Inl IndexError | Some c \<Rightarrow> Inr (PStr [c]))"
| "py_getitem_int (PDict d) i = Inl KeyError"
| "py_getitem_int v i = Inl TypeError"

fun py_getitem_str :: "pyval \<Rightarrow> string \<Rightarrow> exn + pyval" where
  "py_getitem_str (PDict d) k =
     (case map_of d k of None \<Rightarrow> Inl KeyError | Some v \<Rightarrow> Inr v)"
| "py_getitem_str v k = Inl TypeError"

text \<open>\<open>len(v)\<close>: defined on sequences and dicts, TypeError elsewhere.\<close>

fun py_len :: "pyval \<Rightarrow> exn + int" where
  "py_len (PList xs) = Inr (int (length xs))"
| "py_len (PStr s) = Inr (int (length s))"
| "py_len (PDict d) = Inr (int (length (remdups (map fst d))))"
| "py_len v = Inl TypeError"

text \<open>
  \<open>int(v + k)\<close> for an integer literal \<open>k\<close>: an int (or a bool, which Python counts as
  0 or 1) is added to, and \<open>int\<close> of the sum is the sum; every other operand raises
  TypeError.
\<close>

fun py_int_add :: "pyval \<Rightarrow> int \<Rightarrow> exn + int" where
  "py_int_add (PInt n) k = Inr (n + k)"
| "py_int_add (PBool b) k = Inr ((if b then 1 else 0) + k)"
| "py_int_add v k = Inl TypeError"

text \<open>\<open>str(n)\<close> of an integer: its decimal digits, with a leading minus sign if negative.\<close>

definition digit_char :: "nat \<Rightarrow> char" where
  "digit_char d = ''0123456789'' ! d"

fun nat_digits :: "nat \<Rightarrow> string" where
  "nat_digits n =
     (if n < 10 then [digit_char n] else nat_digits (n div 10) @ [digit_char (n mod 10)])"

declare nat_digits.simps [simp del]

definition py_str_int :: "int \<Rightarrow> string" where
  "py_str_int n = (if n < 0 then CHR ''-'' # nat_digits (nat (- n)) else nat_digits (nat n))"

text \<open>Reading a decimal string back, used to state that \<open>py_str_int\<close> is the decimal form.\<close>

definition digit_val :: "char \<Rightarrow> nat" where
  "digit_val c = of_char c - 48"

definition nat_of_digits :: "string \<Rightarrow> nat" where
  "nat_of_digits s = foldl (\<lambda>acc c. 10 * acc + digit_val c) 0 s"

definition int_of_decimal :: "string \<Rightarrow> int" where
  "int_of_decimal s =
     (case s of
        [] \<Rightarrow> 0
      | c # cs \<Rightarrow> if c = CHR ''-'' then - int (nat_of_digits cs) else int (nat_of_digits s))"

text \<open>\<open>sep.join(parts)\<close> on a list of strings.\<close>

fun py_join :: "string \<Rightarrow> string list \<Rightarrow> string" where
  "py_join sep [] = []"
| "py_join sep [x] = x"
| "py_join sep (x # y # ys) = x @ sep @ py_join sep (y # ys)"

text \<open>\<open>s.lower()\<close> on an ASCII byte string: only \<open>A\<close>..\<open>Z\<close> change.\<close>

definition upper_letters :: string where
  "upper_letters = ''ABCDEFGHIJKLMNOPQRSTUVWXYZ''"

definition lower_letters :: string where
  "lower_letters = ''abcdefghijklmnopqrstuvwxyz''"

definition lower_char :: "char \<Rightarrow> char" where
  "lower_char c = (case map_of (zip upper_letters lower_letters) c of None \<Rightarrow> c | Some l \<Rightarrow> l)"

definition py_lower :: "string \<Rightarrow> string" where
  "py_lower s = map lower_char s"

section \<open>The Duo app integration\<close>

text \<open>
  The state of one \<open>DuoApp\<close> instance: the \<open>auth\<close> part of \<open>_config\<close>, the two cursor
  attributes and the poll counter of the base class, and which of the two concrete
  subclasses it is.
\<close>

datatype duo_class = DuoAuthApp | DuoAdminApp

record auth_config =
  api_hostname :: string
  integration_key :: string
  secret_key :: string

record duo_app =
  app_class :: duo_class
  config_auth :: auth_config
  last_timestamp :: pyval
  more_to_poll :: bool
  poll_count :: int

definition MAX_RESPONSE_LOGS :: int where
  "MAX_RESPONSE_LOGS = 1000"

fun endpoint :: "duo_class \<Rightarrow> string" where
  "endpoint DuoAuthApp = ''/admin/v1/logs/authentication''"
| "endpoint DuoAdminApp = ''/admin/v1/logs/administrator''"

text \<open>
  \<open>_sleep_seconds\<close>: \<open>abs((self._poll_count % 2) - 1) * 60\<close>. Python's \<open>%\<close> with a
  positive modulus is the floored remainder, as \<open>mod\<close> on \<open>int\<close> is.
\<close>

definition sleep_seconds :: "duo_app \<Rightarrow> int" where
  "sleep_seconds self = \<bar>(poll_count self mod 2) - 1\<bar> * 60"

text \<open>
  What the module uses but does not define: the standard-library calls of
  \<open>_generate_auth\<close> and the base class's \<open>_check_http_response\<close>. They are
  parameters of the model; \<open>'clock\<close> is whatever \<open>datetime.utcnow()\<close> reads.
  \<open>hmac_sha1_hexdigest key msg\<close> stands for
  \<open>hmac.new(key, msg, hashlib.sha1).hexdigest()\<close> and is \<open>None\<close> where
  \<open>hmac.new\<close> raises TypeError. \<open>_check_http_response\<close> is taken to read the
  response only.
\<close>

record http_request =
  req_url :: string
  req_headers :: "(string \<times> string) list"
  req_params :: "(string \<times> string) list"

record http_response =
  status_code :: int
  json_body :: "pyval option"

record 'clock externals =
  strftime :: "'clock \<Rightarrow> string \<Rightarrow> string"
  urlencode :: "(string \<times> string) list \<Rightarrow> string"
  hmac_sha1_hexdigest :: "string \<Rightarrow> string \<Rightarrow> string option"
  b64encode :: "string \<Rightarrow> string"
  check_http_response :: "http_response \<Rightarrow> bool"

text \<open>\<open>response.json()\<close>: ValueError when the body is not JSON (\<open>json_body = None\<close>).\<close>

definition response_json :: "http_response \<Rightarrow> exn + pyval" where
  "response_json response =
     (case json_body response of None \<Rightarrow> Inl ValueError | Some v \<Rightarrow> Inr v)"

text \<open>
  \<open>_generate_auth\<close>. The local \<open>auth_string\<close> is a definition of its own so that
  the signed text can be named; the result is \<open>None\<close> for Python's \<open>False\<close> and the
  header dict otherwise.
\<close>

definition auth_string ::
  "'clock externals \<Rightarrow> duo_app \<Rightarrow> string \<Rightarrow> string \<Rightarrow> (string \<times> string) list \<Rightarrow> string" where
  "auth_string ext self formatted_date hostname params =
     py_join [CHR 0x0A]
       [formatted_date, ''GET'', hostname, endpoint (app_class self), urlencode ext params]"

definition generate_auth ::
  "'clock externals \<Rightarrow> duo_app \<Rightarrow> string \<Rightarrow> (string \<times> string) list \<Rightarrow> 'clock
     \<Rightarrow> (string \<times> string) list option" where
  "generate_auth ext self hostname params now =
     (let formatted_date = strftime ext now ''%a, %d %b %Y %H:%M:%S -0000''
      in case hmac_sha1_hexdigest ext (secret_key (config_auth self))
                (auth_string ext self formatted_date hostname params) of
           None \<Rightarrow> None
         | Some hexdigest \<Rightarrow>
             let basic_auth = py_join '':'' [integration_key (config_auth self), hexdigest]
             in Some [(''Date'', formatted_date),
                      (''Authorization'', ''Basic '' @ b64encode ext basic_auth),
                      (''Host'', hostname)])"

text \<open>
  The tail of \<open>_get_duo_logs\<close> once \<open>logs\<close> is bound (lines 129 to 137): the
  timestamp of \<open>logs[-1]\<close> is stored, then \<open>_more_to_poll\<close>, and \<open>logs\<close> is
  returned. An exception leaves the attributes as they are at that point.
\<close>

definition update_cursor :: "duo_app \<Rightarrow> pyval \<Rightarrow> (exn + pyval) \<times> duo_app" where
  "update_cursor self logs =
     (case py_getitem_int logs (- 1) of
        Inl e \<Rightarrow> (Inl e, self)
      | Inr latest \<Rightarrow>
          (case py_getitem_str latest ''timestamp'' of
             Inl e \<Rightarrow> (Inl e, self)
           | Inr ts \<Rightarrow>
               let self1 = self\<lparr>last_timestamp := ts\<rparr>
               in (case py_len logs of
                     Inl e \<Rightarrow> (Inl e, self1)
                   | Inr n \<Rightarrow> (Inr logs, self1\<lparr>more_to_poll := (MAX_RESPONSE_LOGS \<le> n)\<rparr>))))"

text \<open>
  \<open>_get_duo_logs\<close>. The result is what the call returns or raises (\<open>PBool False\<close> or
  the list of logs; \<open>Inl\<close> an exception), the instance afterwards, and the request
  handed to \<open>requests.get\<close>, if the call got that far. \<open>http_get\<close> is the network:
  it answers a request with a response or raises.
\<close>

definition get_duo_logs ::
  "'clock externals \<Rightarrow> duo_app \<Rightarrow> string \<Rightarrow> string \<Rightarrow> 'clock
     \<Rightarrow> (http_request \<Rightarrow> exn + http_response)
     \<Rightarrow> (exn + pyval) \<times> duo_app \<times> http_request option" where
  "get_duo_logs ext self hostname full_url now http_get =
     (case py_int_add (last_timestamp self) 1 of
        Inl e \<Rightarrow> (Inl e, self, None)
      | Inr mintime \<Rightarrow>
          let params = [(''mintime'', py_str_int mintime)]
          in (case generate_auth ext self hostname params now of
                None \<Rightarrow> (Inr (PBool False), self, None)
              | Some hdrs \<Rightarrow>
                  let request = \<lparr>req_url = full_url, req_headers = hdrs, req_params = params\<rparr>
                  in (case http_get request of
                        Inl e \<Rightarrow> (Inl e, self, Some request)
                      | Inr response \<Rightarrow>
                          if \<not> check_http_response ext response
                          then (Inr (PBool False), self, Some request)
                          else (case response_json response of
                                  Inl e \<Rightarrow> (Inl e, self, Some request)
                                | Inr body \<Rightarrow>
                                    (case py_getitem_str body ''response'' of
                                       Inl e \<Rightarrow> (Inl e, self, Some request)
                                     | Inr logs \<Rightarrow>
                                         (case update_cursor self logs of
                                            (res, self') \<Rightarrow> (res, self', Some request)))))))"

text \<open>\<open>_gather_logs\<close>: the hostname comes from the configuration.\<close>

definition gather_logs ::
  "'clock externals \<Rightarrow> duo_app \<Rightarrow> 'clock \<Rightarrow> (http_request \<Rightarrow> exn + http_response)
     \<Rightarrow> (exn + pyval) \<times> duo_app \<times> http_request option" where
  "gather_logs ext self now http_get =
     (let hostname = api_hostname (config_auth self);
          full_url = ''https://'' @ hostname @ endpoint (app_class self)
      in get_duo_logs ext self hostname full_url now http_get)"

text \<open>
  A sequence of polls on one instance: each poll has its own clock reading and its own
  network answer, and the instance left by one poll is the one the next poll starts from,
  whether the poll returned or raised.
\<close>

type_synonym 'clock poll_input = "'clock \<times> (http_request \<Rightarrow> exn + http_response)"

fun poll_all :: "'clock externals \<Rightarrow> duo_app \<Rightarrow> 'clock poll_input list \<Rightarrow> duo_app" where
  "poll_all ext self [] = self"
| "poll_all ext self (inp # rest) =
     poll_all ext (fst (snd (gather_logs ext self (fst inp) (snd inp)))) rest"

section \<open>The rule \<open>duo_anonymous_ip_failure\<close>\<close>

text \<open>
  \<open>rec['result'] == 'FAILURE' and rec['reason'] == 'Anonymous IP'\<close>: the right operand
  of \<open>and\<close> is evaluated only when the left one is true. A value equals a string
  literal exactly when it is that string.
\<close>

definition py_eq_str :: "pyval \<Rightarrow> string \<Rightarrow> bool" where
  "py_eq_str v s = (v = PStr s)"

definition duo_anonymous_ip_failure :: "pyval \<Rightarrow> exn + bool" where
  "duo_anonymous_ip_failure rec =
     (case py_getitem_str rec ''result'' of
        Inl e \<Rightarrow> Inl e
      | Inr result \<Rightarrow>
          if py_eq_str result ''FAILURE''
          then (case py_getitem_str rec ''reason'' of
                  Inl e \<Rightarrow> Inl e
                | Inr reason \<Rightarrow> Inr (py_eq_str reason ''Anonymous IP''))
          else Inr False)"

text \<open>The keys of a log record as the docstring of \<open>_get_duo_logs\<close> lists them.\<close>

definition documented_log_keys :: "string list" where
  "documented_log_keys =
     [''timestamp'', ''device'', ''username'', ''factor'', ''result'', ''ip'',
      ''new_enrollment'', ''integration'', ''location'']"

section \<open>Notions the claims are stated with\<close>

text \<open>
  A call of \<open>_get_duo_logs\<close> has failed when it raised or returned \<open>False\<close>.
\<close>

definition poll_failed :: "exn + pyval \<Rightarrow> bool" where
  "poll_failed res = (case res of Inl e \<Rightarrow> True | Inr v \<Rightarrow> v = PBool False)"

text \<open>
  The body of a response is well formed when it is a JSON object whose \<open>response\<close>
  entry is an array.
\<close>

definition has_response_array :: "http_response \<Rightarrow> bool" where
  "has_response_array response =
     (case json_body response of
        Some (PDict d) \<Rightarrow> (case map_of d ''response'' of Some (PList xs) \<Rightarrow> True | _ \<Rightarrow> False)
      | _ \<Rightarrow> False)"

text \<open>
  The provider's side of the watermark invariant: every record in the answer to a request
  carries an integer timestamp that is not before the \<open>mintime\<close> the request asked for.
  \<open>polls_respect_mintime\<close> asks this of each poll of a sequence, at the request that
  poll really sends.
\<close>

definition record_not_before :: "int \<Rightarrow> pyval \<Rightarrow> bool" where
  "record_not_before mintime rec =
     (case py_getitem_str rec ''timestamp'' of Inr (PInt t) \<Rightarrow> mintime \<le> t | _ \<Rightarrow> False)"

definition returned_records :: "exn + http_response \<Rightarrow> pyval list" where
  "returned_records answer =
     (case answer of
        Inl e \<Rightarrow> []
      | Inr response \<Rightarrow>
          (case json_body response of
             Some (PDict d) \<Rightarrow> (case map_of d ''response'' of Some (PList xs) \<Rightarrow> xs | _ \<Rightarrow> [])
           | _ \<Rightarrow> []))"

definition provider_respects_mintime ::
  "'clock externals \<Rightarrow> duo_app \<Rightarrow> 'clock poll_input \<Rightarrow> bool" where
  "provider_respects_mintime ext self inp =
     (case snd (snd (gather_logs ext self (fst inp) (snd inp))) of
        None \<Rightarrow> True
      | Some request \<Rightarrow>
          (case map_of (req_params request) ''mintime'' of
             None \<Rightarrow> False
           | Some m \<Rightarrow>
               list_all (record_not_before (int_of_decimal m))
                 (returned_records (snd inp request))))"

fun polls_respect_mintime ::
  "'clock externals \<Rightarrow> duo_app \<Rightarrow> 'clock poll_input list \<Rightarrow> bool" where
  "polls_respect_mintime ext self [] = True"
| "polls_respect_mintime ext self (inp # rest) =
     (provider_respects_mintime ext self inp
      \<and> polls_respect_mintime ext (fst (snd (gather_logs ext self (fst inp) (snd inp)))) rest)"

text \<open>
  The format \<open>required_auth_info\<close> declares for \<open>api_hostname\<close>, the regular
  expression \<open>^api-[a-f0-9]{8}\.duosecurity\.com$\<close>: \<open>api-\<close>, eight characters of
  \<open>a\<close>..\<open>f\<close> or \<open>0\<close>..\<open>9\<close>, then \<open>.duosecurity.com\<close>; Python's \<open>$\<close> also
  matches before one final newline.
\<close>

definition hex_lower_digit :: "char \<Rightarrow> bool" where
  "hex_lower_digit c = (c \<in> set ''abcdef0123456789'')"

definition api_hostname_format :: "string \<Rightarrow> bool" where
  "api_hostname_format h =
     (let s = (if h \<noteq> [] \<and> last h = CHR 0x0A then butlast h else h)
      in take 4 s = ''api-''
         \<and> length s = 28
         \<and> list_all hex_lower_digit (take 8 (drop 4 s))
         \<and> drop 12 s = ''.duosecurity.com'')"

section \<open>A concrete instance and environment\<close>

text \<open>
  The instance of the specification's scenario: the authentication log app with watermark
  1000. The environment below fixes simple stand-ins for the library calls, so that the
  general theorems can be evaluated at concrete inputs: the clock reading is the formatted
  date itself, the query is encoded as \<open>key=value\<close> pairs joined by \<open>&\<close>, the digest is
  the key followed by the text (any non-empty key is accepted), base64 is the identity,
  and a response is valid when its status is 2xx.
\<close>

definition demo_app :: duo_app where
  "demo_app =
     \<lparr>app_class = DuoAuthApp,
      config_auth = \<lparr>api_hostname = ''api-12345678.duosecurity.com'',
                     integration_key = ''DIABCDEFGHIJKLMN1234'',
                     secret_key = ''abcdefghijklmnopqrstuvwxyz0123456789ABCD''\<rparr>,
      last_timestamp = PInt 1000,
      more_to_poll = False,
      poll_count = 0\<rparr>"

definition demo_ext :: "string externals" where
  "demo_ext =
     \<lparr>strftime = (\<lambda>now fmt. now),
      urlencode = (\<lambda>ps. py_join ''&'' (map (\<lambda>(k, v). k @ ''='' @ v) ps)),
      hmac_sha1_hexdigest = (\<lambda>key msg. if key = [] then None else Some (key @ msg)),
      b64encode = (\<lambda>s. s),
      check_http_response = (\<lambda>r. 200 \<le> status_code r \<and> status_code r \<le> 299)\<rparr>"

definition demo_now :: string where
  "demo_now = ''Wed, 04 Nov 2026 10:00:00 -0000''"

definition log_record :: "int \<Rightarrow> pyval" where
  "log_record t = PDict [(''timestamp'', PInt t), (''result'', PStr ''SUCCESS'')]"

definition ok_response :: "pyval \<Rightarrow> http_request \<Rightarrow> exn + http_response" where
  "ok_response body request = Inr \<lparr>status_code = 200, json_body = Some body\<rparr>"

definition status_response :: "int \<Rightarrow> http_request \<Rightarrow> exn + http_response" where
  "status_response code request = Inr \<lparr>status_code = code, json_body = None\<rparr>"

definition logs_body :: "pyval list \<Rightarrow> pyval" where
  "logs_body records = PDict [(''response'', PList records)]"

section \<open>Facts about the built-in operations\<close>

lemma seq_index_minus_one:
  "xs \<noteq> [] \<Longrightarrow> seq_index xs (- 1) = Some (last xs)"
  by (cases xs rule: rev_cases) (simp_all add: seq_index_def Let_def nat_diff_distrib nth_append)

lemma seq_index_Nil: "seq_index [] i = None"
  by (simp add: seq_index_def Let_def)

lemma digit_val_digit_char: "d < 10 \<Longrightarrow> digit_val (digit_char d) = d"
proof -
  assume "d < 10"
  then have "d = 0 \<or> d = 1 \<or> d = 2 \<or> d = 3 \<or> d = 4 \<or> d = 5 \<or> d = 6 \<or> d = 7 \<or> d = 8 \<or> d = 9"
    by arith
  then show ?thesis
    by (elim disjE) (simp_all add: digit_char_def digit_val_def)
qed

lemma digit_char_not_minus: "d < 10 \<Longrightarrow> digit_char d \<noteq> CHR ''-''"
proof -
  assume "d < 10"
  then have "d = 0 \<or> d = 1 \<or> d = 2 \<or> d = 3 \<or> d = 4 \<or> d = 5 \<or> d = 6 \<or> d = 7 \<or> d = 8 \<or> d = 9"
    by arith
  then show ?thesis
    by (elim disjE) (simp_all add: digit_char_def)
qed

lemma nat_of_digits_snoc:
  "nat_of_digits (s @ [c]) = 10 * nat_of_digits s + digit_val c"
  by (simp add: nat_of_digits_def)

lemma nat_of_digits_nat_digits: "nat_of_digits (nat_digits n) = n"
proof (induction n rule: nat_digits.induct)
  case (1 n)
  show ?case
  proof (cases "n < 10")
    case True
    then show ?thesis
      by (simp add: nat_digits.simps [of n] nat_of_digits_def digit_val_digit_char)
  next
    case False
    with 1 have "nat_of_digits (nat_digits (n div 10)) = n div 10" by simp
    with False show ?thesis
      by (simp add: nat_digits.simps [of n] nat_of_digits_snoc digit_val_digit_char)
  qed
qed

lemma nat_digits_head: "\<exists>c cs. nat_digits n = c # cs \<and> c \<noteq> CHR ''-''"
proof (induction n rule: nat_digits.induct)
  case (1 n)
  show ?case
  proof (cases "n < 10")
    case True
    then show ?thesis
      by (simp add: nat_digits.simps [of n] digit_char_not_minus)
  next
    case False
    with 1 obtain c cs where "nat_digits (n div 10) = c # cs" "c \<noteq> CHR ''-''" by auto
    with False show ?thesis
      by (simp add: nat_digits.simps [of n])
  qed
qed

text \<open>\<open>py_str_int\<close> writes the decimal form: reading it back gives the number.\<close>

lemma int_of_decimal_py_str_int: "int_of_decimal (py_str_int n) = n"
proof (cases "n < 0")
  case True
  then show ?thesis
    by (simp add: py_str_int_def int_of_decimal_def nat_of_digits_nat_digits)
next
  case False
  obtain c cs where h: "nat_digits (nat n) = c # cs" "c \<noteq> CHR ''-''"
    using nat_digits_head by blast
  have "nat_of_digits (c # cs) = nat n"
    using nat_of_digits_nat_digits [of "nat n"] h by simp
  with False h show ?thesis
    by (simp add: py_str_int_def int_of_decimal_def)
qed

section \<open>The cursor update\<close>

lemma update_cursor_nonempty:
  assumes "B \<noteq> []" and "py_getitem_str (last B) ''timestamp'' = Inr ts"
  shows "update_cursor self (PList B) =
           (Inr (PList B),
            self\<lparr>last_timestamp := ts, more_to_poll := (1000 \<le> int (length B))\<rparr>)"
  using assms by (simp add: update_cursor_def seq_index_minus_one MAX_RESPONSE_LOGS_def)

lemma update_cursor_empty: "update_cursor self (PList []) = (Inl IndexError, self)"
  by (simp add: update_cursor_def seq_index_Nil)

lemma update_cursor_Inr:
  assumes "update_cursor self logs = (Inr v, self')"
  shows "\<exists>B ts. logs = PList B \<and> B \<noteq> [] \<and> py_getitem_str (last B) ''timestamp'' = Inr ts
            \<and> v = logs
            \<and> self' = self\<lparr>last_timestamp := ts, more_to_poll := (1000 \<le> int (length B))\<rparr>"
proof (cases logs)
  case (PList B)
  show ?thesis
  proof (cases "B = []")
    case True
    with PList assms show ?thesis by (simp add: update_cursor_empty)
  next
    case False
    then have idx: "seq_index B (- 1) = Some (last B)" by (rule seq_index_minus_one)
    from assms PList idx show ?thesis using False
      by (auto simp: update_cursor_def MAX_RESPONSE_LOGS_def Let_def split: sum.splits)
  qed
next
  case (PStr s)
  with assms show ?thesis
    by (auto simp: update_cursor_def split: sum.splits option.splits)
qed (use assms in \<open>auto simp: update_cursor_def split: sum.splits\<close>)

lemma update_cursor_Inl:
  assumes "update_cursor self logs = (Inl e, self')"
  shows "self' = self"
proof (cases logs)
  case (PList B)
  with assms show ?thesis
    by (auto simp: update_cursor_def Let_def split: sum.splits option.splits)
next
  case (PStr s)
  with assms show ?thesis
    by (auto simp: update_cursor_def split: sum.splits option.splits)
qed (use assms in \<open>auto simp: update_cursor_def split: sum.splits\<close>)

section \<open>What a call of \<open>_get_duo_logs\<close> can do\<close>

lemma py_getitem_str_Inr:
  "py_getitem_str v k = Inr x \<Longrightarrow> \<exists>d. v = PDict d \<and> map_of d k = Some x"
  by (cases v) (auto split: option.splits)

lemma get_duo_logs_outcome:
  assumes "get_duo_logs ext self hostname full_url now http_get = (res, self', sent)"
  shows "(self' = self \<and> poll_failed res
          \<and> (\<forall>request. sent = Some request \<longrightarrow>
                (\<exists>t hdrs. py_int_add (last_timestamp self) 1 = Inr t
                   \<and> generate_auth ext self hostname [(''mintime'', py_str_int t)] now
                       = Some hdrs
                   \<and> request = \<lparr>req_url = full_url, req_headers = hdrs,
                                 req_params = [(''mintime'', py_str_int t)]\<rparr>)))
         \<or> (\<exists>t hdrs response d B ts.
               py_int_add (last_timestamp self) 1 = Inr t
             \<and> generate_auth ext self hostname [(''mintime'', py_str_int t)] now = Some hdrs
             \<and> sent = Some \<lparr>req_url = full_url, req_headers = hdrs,
                              req_params = [(''mintime'', py_str_int t)]\<rparr>
             \<and> http_get \<lparr>req_url = full_url, req_headers = hdrs,
                          req_params = [(''mintime'', py_str_int t)]\<rparr> = Inr response
             \<and> check_http_response ext response
             \<and> json_body response = Some (PDict d)
             \<and> map_of d ''response'' = Some (PList B)
             \<and> B \<noteq> []
             \<and> py_getitem_str (last B) ''timestamp'' = Inr ts
             \<and> res = Inr (PList B)
             \<and> self' = self\<lparr>last_timestamp := ts, more_to_poll := (1000 \<le> int (length B))\<rparr>)"
    (is "?failed \<or> ?advanced")
proof -
  have a: "(res, self', sent) = get_duo_logs ext self hostname full_url now http_get"
    using assms by simp
  show ?thesis
  proof (cases "py_int_add (last_timestamp self) 1")
    case (Inl e)
    with a have "res = Inl e \<and> self' = self \<and> sent = None"
      by (simp add: get_duo_logs_def)
    then have ?failed by (simp add: poll_failed_def)
    then show ?thesis by (rule disjI1)
  next
    case t: (Inr t)
    let ?params = "[(''mintime'', py_str_int t)]"
    show ?thesis
    proof (cases "generate_auth ext self hostname ?params now")
      case None
      with a t have "res = Inr (PBool False) \<and> self' = self \<and> sent = None"
        by (simp add: get_duo_logs_def)
      then have ?failed by (simp add: poll_failed_def)
      then show ?thesis by (rule disjI1)
    next
      case hd: (Some hdrs)
      let ?req = "\<lparr>req_url = full_url, req_headers = hdrs, req_params = ?params\<rparr>"
      have failedI: ?failed if "poll_failed res" "self' = self" "sent = Some ?req"
        using that t hd by simp
      show ?thesis
      proof (cases "http_get ?req")
        case (Inl e)
        with a t hd have "res = Inl e \<and> self' = self \<and> sent = Some ?req"
          by (simp add: get_duo_logs_def)
        then have ?failed by (intro failedI) (simp_all add: poll_failed_def)
        then show ?thesis by (rule disjI1)
      next
        case rs: (Inr response)
        show ?thesis
        proof (cases "check_http_response ext response")
          case False
          with a t hd rs have "res = Inr (PBool False) \<and> self' = self \<and> sent = Some ?req"
            by (simp add: get_duo_logs_def)
          then have ?failed by (intro failedI) (simp_all add: poll_failed_def)
          then show ?thesis by (rule disjI1)
        next
          case chk: True
          show ?thesis
          proof (cases "response_json response")
            case (Inl e)
            with a t hd rs chk have "res = Inl e \<and> self' = self \<and> sent = Some ?req"
              by (simp add: get_duo_logs_def)
            then have ?failed by (intro failedI) (simp_all add: poll_failed_def)
            then show ?thesis by (rule disjI1)
          next
            case bd: (Inr body)
            show ?thesis
            proof (cases "py_getitem_str body ''response''")
              case (Inl e)
              with a t hd rs chk bd have "res = Inl e \<and> self' = self \<and> sent = Some ?req"
                by (simp add: get_duo_logs_def)
              then have ?failed by (intro failedI) (simp_all add: poll_failed_def)
              then show ?thesis by (rule disjI1)
            next
              case lg: (Inr logs)
              obtain r s1 where uc: "update_cursor self logs = (r, s1)"
                by (cases "update_cursor self logs")
              from a t hd rs chk bd lg uc
              have eqs: "res = r" "self' = s1" "sent = Some ?req"
                by (simp_all add: get_duo_logs_def)
              show ?thesis
              proof (cases r)
                case (Inl e)
                with uc have "s1 = self" by (auto dest: update_cursor_Inl)
                with eqs Inl have ?failed by (intro failedI) (simp_all add: poll_failed_def)
                then show ?thesis by (rule disjI1)
              next
                case (Inr v)
                with uc obtain B ts where B: "logs = PList B" "B \<noteq> []"
                  "py_getitem_str (last B) ''timestamp'' = Inr ts" "v = logs"
                  "s1 = self\<lparr>last_timestamp := ts, more_to_poll := (1000 \<le> int (length B))\<rparr>"
                  using update_cursor_Inr by blast
                from lg obtain d where d: "body = PDict d" "map_of d ''response'' = Some logs"
                  using py_getitem_str_Inr by blast
                from bd d have jb: "json_body response = Some (PDict d)"
                  by (auto simp: response_json_def split: option.splits)
                have ?advanced
                  using t hd eqs rs chk jb d B Inr by blast
                then show ?thesis by (rule disjI2)
              qed
            qed
          qed
        qed
      qed
    qed
  qed
qed

lemma gather_logs_outcome:
  assumes "gather_logs ext self now http_get = (res, self', sent)"
  shows "(self' = self \<and> poll_failed res
          \<and> (\<forall>request. sent = Some request \<longrightarrow>
                (\<exists>t. py_int_add (last_timestamp self) 1 = Inr t
                   \<and> req_params request = [(''mintime'', py_str_int t)])))
         \<or> (\<exists>t request response d B ts.
               py_int_add (last_timestamp self) 1 = Inr t
             \<and> sent = Some request
             \<and> req_params request = [(''mintime'', py_str_int t)]
             \<and> http_get request = Inr response
             \<and> check_http_response ext response
             \<and> json_body response = Some (PDict d)
             \<and> map_of d ''response'' = Some (PList B)
             \<and> B \<noteq> []
             \<and> py_getitem_str (last B) ''timestamp'' = Inr ts
             \<and> res = Inr (PList B)
             \<and> self' = self\<lparr>last_timestamp := ts, more_to_poll := (1000 \<le> int (length B))\<rparr>)"
proof -
  from assms have g: "get_duo_logs ext self (api_hostname (config_auth self))
      (''https://'' @ api_hostname (config_auth self) @ endpoint (app_class self)) now http_get
      = (res, self', sent)"
    by (simp add: gather_logs_def Let_def)
  from get_duo_logs_outcome [OF g] show ?thesis
  proof
    assume f: "self' = self \<and> poll_failed res \<and>
      (\<forall>request. sent = Some request \<longrightarrow>
        (\<exists>t hdrs. py_int_add (last_timestamp self) 1 = Inr t \<and>
           generate_auth ext self (api_hostname (config_auth self))
             [(''mintime'', py_str_int t)] now = Some hdrs \<and>
           request = \<lparr>req_url = ''https://'' @ api_hostname (config_auth self) @ endpoint (app_class self),
             req_headers = hdrs, req_params = [(''mintime'', py_str_int t)]\<rparr>))"
    then have "self' = self \<and> poll_failed res
          \<and> (\<forall>request. sent = Some request \<longrightarrow>
                (\<exists>t. py_int_add (last_timestamp self) 1 = Inr t
                   \<and> req_params request = [(''mintime'', py_str_int t)]))"
      by fastforce
    then show ?thesis by (rule disjI1)
  next
    assume "\<exists>t hdrs response d B ts.
       py_int_add (last_timestamp self) 1 = Inr t \<and>
       generate_auth ext self (api_hostname (config_auth self))
        [(''mintime'', py_str_int t)] now = Some hdrs \<and>
       sent = Some \<lparr>req_url = ''https://'' @ api_hostname (config_auth self) @ endpoint (app_class self),
                req_headers = hdrs, req_params = [(''mintime'', py_str_int t)]\<rparr> \<and>
       http_get \<lparr>req_url = ''https://'' @ api_hostname (config_auth self) @ endpoint (app_class self),
           req_headers = hdrs, req_params = [(''mintime'', py_str_int t)]\<rparr> = Inr response \<and>
       check_http_response ext response \<and>
       json_body response = Some (PDict d) \<and>
       map_of d ''response'' = Some (PList B) \<and>
       B \<noteq> [] \<and>
       py_getitem_str (last B) ''timestamp'' = Inr ts \<and>
       res = Inr (PList B) \<and>
       self' = self\<lparr>last_timestamp := ts, more_to_poll := 1000 \<le> int (length B)\<rparr>"
    then obtain t hdrs response d B ts where h:
       "py_int_add (last_timestamp self) 1 = Inr t"
       "sent = Some \<lparr>req_url = ''https://'' @ api_hostname (config_auth self) @ endpoint (app_class self),
                req_headers = hdrs, req_params = [(''mintime'', py_str_int t)]\<rparr>"
       "http_get \<lparr>req_url = ''https://'' @ api_hostname (config_auth self) @ endpoint (app_class self),
           req_headers = hdrs, req_params = [(''mintime'', py_str_int t)]\<rparr> = Inr response"
       "check_http_response ext response"
       "json_body response = Some (PDict d)"
       "map_of d ''response'' = Some (PList B)"
       "B \<noteq> []"
       "py_getitem_str (last B) ''timestamp'' = Inr ts"
       "res = Inr (PList B)"
       "self' = self\<lparr>last_timestamp := ts, more_to_poll := 1000 \<le> int (length B)\<rparr>"
      by blast
    let ?req = "\<lparr>req_url = ''https://'' @ api_hostname (config_auth self) @ endpoint (app_class self),
                req_headers = hdrs, req_params = [(''mintime'', py_str_int t)]\<rparr>"
    have "req_params ?req = [(''mintime'', py_str_int t)]" by simp
    with h have "\<exists>t request response d B ts.
               py_int_add (last_timestamp self) 1 = Inr t
             \<and> sent = Some request
             \<and> req_params request = [(''mintime'', py_str_int t)]
             \<and> http_get request = Inr response
             \<and> check_http_response ext response
             \<and> json_body response = Some (PDict d)
             \<and> map_of d ''response'' = Some (PList B)
             \<and> B \<noteq> []
             \<and> py_getitem_str (last B) ''timestamp'' = Inr ts
             \<and> res = Inr (PList B)
             \<and> self' = self\<lparr>last_timestamp := ts, more_to_poll := (1000 \<le> int (length B))\<rparr>"
      by blast
    then show ?thesis by (rule disjI2)
  qed
qed


lemma py_str_int_1001: "py_str_int 1001 = ''1001''"
  by (simp add: py_str_int_def nat_digits.simps digit_char_def)

lemma py_getitem_str_Inl:
  "py_getitem_str v k = Inl e \<Longrightarrow> e = KeyError \<or> e = TypeError"
  by (cases v) (auto split: option.splits)

lemma update_cursor_not_list:
  assumes "\<forall>B. logs \<noteq> PList B"
  shows "\<exists>e. update_cursor self logs = (Inl e, self)
              \<and> (e = TypeError \<or> e = KeyError \<or> e = IndexError)"
proof (cases logs)
  case (PList B)
  with assms show ?thesis by simp
next
  case (PStr s)
  then show ?thesis
    by (cases "seq_index s (- 1)") (simp_all add: update_cursor_def)
qed (simp_all add: update_cursor_def)

section \<open>Lower case and the hostname format\<close>

lemma lower_char_other: "c \<notin> set upper_letters \<Longrightarrow> lower_char c = c"
proof -
  assume "c \<notin> set upper_letters"
  then have "map_of (zip upper_letters lower_letters) c = None"
    by (simp add: map_of_zip_is_None upper_letters_def lower_letters_def)
  then show ?thesis by (simp add: lower_char_def)
qed

lemma hex_lower_digit_not_upper: "hex_lower_digit c \<Longrightarrow> c \<notin> set upper_letters"
  by (auto simp: hex_lower_digit_def upper_letters_def)

lemma api_hostname_format_lower:
  assumes "api_hostname_format h"
  shows "py_lower h = h"
proof -
  define s where "s = (if h \<noteq> [] \<and> last h = CHR 0x0A then butlast h else h)"
  from assms have f: "take 4 s = ''api-''" "list_all hex_lower_digit (take 8 (drop 4 s))"
    "drop 12 s = ''.duosecurity.com''"
    by (simp_all add: api_hostname_format_def s_def Let_def)
  have "take 8 (drop 4 s) @ drop 8 (drop 4 s) = drop 4 s" by (rule append_take_drop_id)
  moreover have "drop 8 (drop 4 s) = drop 12 s" by simp
  moreover have "take 4 s @ drop 4 s = s" by (rule append_take_drop_id)
  ultimately have "s = take 4 s @ take 8 (drop 4 s) @ drop 12 s" by metis
  then have "set s = set ''api-'' \<union> set (take 8 (drop 4 s)) \<union> set ''.duosecurity.com''"
    using f(1,3) by (metis set_append Un_assoc)
  moreover have "\<forall>c \<in> set (take 8 (drop 4 s)). c \<notin> set upper_letters"
    using f(2) by (auto simp: list_all_iff dest: hex_lower_digit_not_upper)
  ultimately have s_low: "\<forall>c \<in> set s. c \<notin> set upper_letters"
    by (auto simp: upper_letters_def)
  have "set h \<subseteq> set s \<union> {CHR 0x0A}"
  proof (cases "h \<noteq> [] \<and> last h = CHR 0x0A")
    case True
    then have "h = butlast h @ [CHR 0x0A]" by (metis append_butlast_last_id)
    then have "set h = set (butlast h) \<union> {CHR 0x0A}" by (metis set_append list.set(1,2))
    with True show ?thesis by (simp add: s_def)
  next
    case False
    then show ?thesis by (auto simp: s_def)
  qed
  with s_low have "\<forall>c \<in> set h. c \<notin> set upper_letters"
    by (auto simp: upper_letters_def)
  then show ?thesis
    by (simp add: py_lower_def lower_char_other map_idI)
qed

section \<open>Sequences of polls\<close>

lemma poll_step_watermark:
  assumes w: "last_timestamp self = PInt w"
      and ok: "provider_respects_mintime ext self inp"
  shows "\<exists>w'. last_timestamp (fst (snd (gather_logs ext self (fst inp) (snd inp)))) = PInt w'
              \<and> w \<le> w'"
proof -
  obtain res self' sent where g: "gather_logs ext self (fst inp) (snd inp) = (res, self', sent)"
    by (cases "gather_logs ext self (fst inp) (snd inp)")
  from gather_logs_outcome [OF g] show ?thesis
  proof (elim disjE exE conjE)
    assume "self' = self"
    with g w show ?thesis by simp
  next
    fix t request response d B ts
    assume t: "py_int_add (last_timestamp self) 1 = Inr t"
      and sent: "sent = Some request"
      and ps: "req_params request = [(''mintime'', py_str_int t)]"
      and rs: "snd inp request = Inr response"
      and jb: "json_body response = Some (PDict d)"
      and mp: "map_of d ''response'' = Some (PList B)"
      and ne: "B \<noteq> []"
      and ts: "py_getitem_str (last B) ''timestamp'' = Inr ts"
      and s': "self' = self\<lparr>last_timestamp := ts, more_to_poll := (1000 \<le> int (length B))\<rparr>"
    from t w have tw: "t = w + 1" by simp
    from ok g sent ps rs jb mp tw
    have "list_all (record_not_before (w + 1)) B"
      by (simp add: provider_respects_mintime_def returned_records_def int_of_decimal_py_str_int)
    moreover from ne have "last B \<in> set B" by simp
    ultimately have "record_not_before (w + 1) (last B)" by (simp add: list_all_iff)
    with ts obtain t' where "ts = PInt t'" "w + 1 \<le> t'"
      by (auto simp: record_not_before_def split: pyval.splits)
    with g s' show ?thesis by simp
  qed
qed

lemma poll_all_watermark:
  "last_timestamp self = PInt w \<Longrightarrow> polls_respect_mintime ext self ins
     \<Longrightarrow> \<exists>w'. last_timestamp (poll_all ext self ins) = PInt w' \<and> w \<le> w'"
proof (induction ins arbitrary: self w)
  case Nil
  then show ?case by simp
next
  case (Cons inp rest)
  let ?next = "fst (snd (gather_logs ext self (fst inp) (snd inp)))"
  from Cons.prems have ok: "provider_respects_mintime ext self inp"
    and rest: "polls_respect_mintime ext ?next rest" by simp_all
  from poll_step_watermark [OF Cons.prems(1) ok]
  obtain w1 where w1: "last_timestamp ?next = PInt w1" "w \<le> w1" by blast
  from Cons.IH [OF w1(1) rest]
  obtain w2 where "last_timestamp (poll_all ext ?next rest) = PInt w2" "w1 \<le> w2" by blast
  with w1 show ?case by auto
qed

lemma poll_all_append:
  "poll_all ext self (xs @ ys) = poll_all ext (poll_all ext self xs) ys"
  by (induction xs arbitrary: self) simp_all

lemma polls_respect_mintime_append:
  "polls_respect_mintime ext self (xs @ ys) =
     (polls_respect_mintime ext self xs
      \<and> polls_respect_mintime ext (poll_all ext self xs) ys)"
  by (induction xs arbitrary: self) simp_all

lemma gather_logs_demo:
  assumes "B \<noteq> []" and "py_getitem_str (last B) ''timestamp'' = Inr ts"
  shows "gather_logs demo_ext (demo_app\<lparr>last_timestamp := PInt w, more_to_poll := m\<rparr>)
           demo_now (ok_response (logs_body B))
         = (Inr (PList B),
            demo_app\<lparr>last_timestamp := ts, more_to_poll := (1000 \<le> int (length B))\<rparr>,
            Some \<lparr>req_url = ''https://api-12345678.duosecurity.com/admin/v1/logs/authentication'',
                  req_headers = the (generate_auth demo_ext demo_app ''api-12345678.duosecurity.com''
                                       [(''mintime'', py_str_int (w + 1))] demo_now),
                  req_params = [(''mintime'', py_str_int (w + 1))]\<rparr>)"
  using assms
  by (simp add: gather_logs_def get_duo_logs_def generate_auth_def auth_string_def demo_ext_def
      demo_app_def ok_response_def logs_body_def response_json_def Let_def
      update_cursor_nonempty)

section \<open>Rate limiting\<close>

text \<open>
  C2 (as amended). The duty cycle of \<open>_sleep_seconds\<close> has the opposite phase to the
  one claimed: for every poll count, also a negative one, the result is 60 when the poll
  count is even and 0 when it is odd; so it is 60 at poll count 0 and 0 at poll count 1.
\<close>

theorem sleep_seconds_duty_cycle:
  "sleep_seconds self = (if even (poll_count self) then 60 else 0)"
proof (cases "even (poll_count self)")
  case True
  then have "poll_count self mod 2 = 0" by presburger
  with True show ?thesis by (simp add: sleep_seconds_def)
next
  case False
  then have "poll_count self mod 2 = 1" by presburger
  with False show ?thesis by (simp add: sleep_seconds_def)
qed

theorem sleep_seconds_duty_cycle_witness:
  "sleep_seconds (demo_app\<lparr>poll_count := 0\<rparr>) = 60
   \<and> sleep_seconds (demo_app\<lparr>poll_count := 1\<rparr>) = 0
   \<and> sleep_seconds (demo_app\<lparr>poll_count := 2\<rparr>) = 60"
  using sleep_seconds_duty_cycle [of "demo_app\<lparr>poll_count := 0\<rparr>"]
        sleep_seconds_duty_cycle [of "demo_app\<lparr>poll_count := 1\<rparr>"]
        sleep_seconds_duty_cycle [of "demo_app\<lparr>poll_count := 2\<rparr>"]
  by simp

text \<open>
  The claim as stated asks for 0 at poll count 0 and 60 at poll count 1; the code returns
  neither.
\<close>

theorem sleep_seconds_phase_counterexample:
  "sleep_seconds (demo_app\<lparr>poll_count := 0\<rparr>) \<noteq> 0
   \<and> sleep_seconds (demo_app\<lparr>poll_count := 1\<rparr>) \<noteq> 60"
  by (simp add: sleep_seconds_def)

section \<open>The cursor after a batch\<close>

text \<open>
  C1. For a non-empty batch whose last record has a timestamp, \<open>update_cursor_nonempty\<close>
  above gives the claimed watermark. For the empty batch the claim asks that the watermark
  stay and \<open>_more_to_poll\<close> become false; the code raises IndexError at \<open>logs[-1]\<close>
  instead, before either attribute is written. Evaluated here on a valid response whose
  \<open>response\<close> array is empty, from an instance with \<open>_more_to_poll\<close> set: the call
  raises, and \<open>_more_to_poll\<close> is still true.
\<close>

theorem empty_batch_raises:
  "(case gather_logs demo_ext (demo_app\<lparr>more_to_poll := True\<rparr>) demo_now
           (ok_response (logs_body [])) of
      (res, self', sent) \<Rightarrow>
        res = Inl IndexError \<and> more_to_poll self' = True \<and> last_timestamp self' = PInt 1000)"
  by (simp add: gather_logs_def get_duo_logs_def generate_auth_def demo_ext_def demo_app_def
      ok_response_def logs_body_def response_json_def update_cursor_empty Let_def)

lemma has_more_iff_full_page:
  assumes "B \<noteq> []" and "int (length B) \<le> MAX_RESPONSE_LOGS"
      and "py_getitem_str (last B) ''timestamp'' = Inr ts"
  shows "fst (update_cursor self (PList B)) = Inr (PList B)
         \<and> more_to_poll (snd (update_cursor self (PList B))) = (length B = 1000)"
  using assms by (auto simp: update_cursor_nonempty MAX_RESPONSE_LOGS_def)

text \<open>
  C4. On every non-empty batch of at most 1000 records whose last record has a timestamp,
  \<open>_more_to_poll\<close> ends up true exactly when the batch has 1000 records
  (\<open>has_more_iff_full_page\<close> above). The empty batch is shorter than 1000, so the claim
  asks for \<open>_more_to_poll\<close> to be false after it; the code raises IndexError at
  \<open>logs[-1]\<close> and leaves the flag as it was. Evaluated on the run in which that
  matters: a first poll brings a full page of 1000 records and sets the flag, the next poll
  is answered with an empty array, raises, and the flag is still set.
\<close>

theorem full_page_then_empty_batch:
  "more_to_poll (poll_all demo_ext demo_app
      [(demo_now, ok_response (logs_body (replicate 1000 (log_record 2000))))])
   \<and> fst (gather_logs demo_ext
        (poll_all demo_ext demo_app
           [(demo_now, ok_response (logs_body (replicate 1000 (log_record 2000))))])
        demo_now (ok_response (logs_body [])))
      = Inl IndexError
   \<and> more_to_poll (poll_all demo_ext demo_app
      [(demo_now, ok_response (logs_body (replicate 1000 (log_record 2000)))),
       (demo_now, ok_response (logs_body []))])
   \<and> int (length ([] :: pyval list)) < MAX_RESPONSE_LOGS"
proof -
  have d0: "demo_app = demo_app\<lparr>last_timestamp := PInt 1000, more_to_poll := False\<rparr>"
    by (simp add: demo_app_def)
  have g1: "gather_logs demo_ext demo_app demo_now
        (ok_response (logs_body (replicate 1000 (log_record 2000))))
      = (Inr (PList (replicate 1000 (log_record 2000))),
         demo_app\<lparr>last_timestamp := PInt 2000, more_to_poll := True\<rparr>,
         Some \<lparr>req_url = ''https://api-12345678.duosecurity.com/admin/v1/logs/authentication'',
                  req_headers = the (generate_auth demo_ext demo_app ''api-12345678.duosecurity.com''
                                       [(''mintime'', py_str_int 1001)] demo_now),
                  req_params = [(''mintime'', py_str_int 1001)]\<rparr>)"
    using gather_logs_demo [where B = "replicate 1000 (log_record 2000)"
        and ts = "PInt 2000" and w = 1000 and m = False]
    by (simp add: log_record_def d0 [symmetric])
  have g2: "gather_logs demo_ext (demo_app\<lparr>last_timestamp := PInt 2000, more_to_poll := True\<rparr>)
        demo_now (ok_response (logs_body []))
      = (Inl IndexError, demo_app\<lparr>last_timestamp := PInt 2000, more_to_poll := True\<rparr>,
         Some \<lparr>req_url = ''https://api-12345678.duosecurity.com/admin/v1/logs/authentication'',
                  req_headers = the (generate_auth demo_ext demo_app ''api-12345678.duosecurity.com''
                                       [(''mintime'', py_str_int 2001)] demo_now),
                  req_params = [(''mintime'', py_str_int 2001)]\<rparr>)"
    by (simp add: gather_logs_def get_duo_logs_def generate_auth_def auth_string_def demo_ext_def
      demo_app_def ok_response_def logs_body_def response_json_def Let_def update_cursor_empty)
  show ?thesis by (simp add: g1 g2 MAX_RESPONSE_LOGS_def)
qed

section \<open>The detection rule\<close>

text \<open>
  C10. The rule reads \<open>reason\<close>, a key the documented record shape does not list. On a
  record whose \<open>result\<close> is \<open>FAILURE\<close> and that has no \<open>reason\<close> key the rule raises
  KeyError; on a record whose \<open>result\<close> is anything else it returns \<open>False\<close>,
  whatever the record holds or lacks under \<open>reason\<close>.
\<close>

theorem anonymous_ip_rule_reads_reason:
  "(map_of d ''result'' = Some (PStr ''FAILURE'') \<and> map_of d ''reason'' = None
      \<longrightarrow> duo_anonymous_ip_failure (PDict d) = Inl KeyError)
   \<and> (map_of d ''result'' = Some v \<and> v \<noteq> PStr ''FAILURE''
      \<longrightarrow> duo_anonymous_ip_failure (PDict d) = Inr False)
   \<and> ''reason'' \<notin> set documented_log_keys"
  by (simp add: duo_anonymous_ip_failure_def py_eq_str_def documented_log_keys_def)

theorem anonymous_ip_rule_reads_reason_witness:
  "duo_anonymous_ip_failure (PDict [(''timestamp'', PInt 1010), (''result'', PStr ''FAILURE'')])
     = Inl KeyError
   \<and> duo_anonymous_ip_failure (PDict [(''timestamp'', PInt 1010), (''result'', PStr ''SUCCESS'')])
     = Inr False"
  using anonymous_ip_rule_reads_reason
          [of "[(''timestamp'', PInt 1010), (''result'', PStr ''FAILURE'')]"]
        anonymous_ip_rule_reads_reason
          [of "[(''timestamp'', PInt 1010), (''result'', PStr ''SUCCESS'')]" "PStr ''SUCCESS''"]
  by simp

section \<open>Polling\<close>



text \<open>
  C5. When the watermark is the integer \<open>w\<close>, a poll signs the single query parameter
  \<open>mintime\<close> with the decimal string of \<open>w + 1\<close> as its value; if signing succeeds
  the poll sends a request with exactly that parameter, whatever the network then answers,
  and if signing fails it returns \<open>False\<close> without sending one.
\<close>

theorem mintime_is_watermark_plus_one:
  assumes "last_timestamp self = PInt w"
  shows "(case generate_auth ext self (api_hostname (config_auth self))
                 [(''mintime'', py_str_int (w + 1))] now of
            None \<Rightarrow> gather_logs ext self now http_get = (Inr (PBool False), self, None)
          | Some hdrs \<Rightarrow>
              snd (snd (gather_logs ext self now http_get))
                = Some \<lparr>req_url = ''https://'' @ api_hostname (config_auth self)
                                      @ endpoint (app_class self),
                         req_headers = hdrs,
                         req_params = [(''mintime'', py_str_int (w + 1))]\<rparr>)
         \<and> int_of_decimal (py_str_int (w + 1)) = w + 1"
  using assms
  by (simp add: gather_logs_def get_duo_logs_def Let_def int_of_decimal_py_str_int
      split: option.splits sum.splits prod.splits)

theorem mintime_is_watermark_plus_one_witness:
  "map_option req_params (snd (snd (gather_logs demo_ext demo_app demo_now
       (ok_response (logs_body [log_record 1010, log_record 1020, log_record 1030])))))
     = Some [(''mintime'', ''1001'')]
   \<and> map_option req_params (snd (snd (gather_logs demo_ext
         (demo_app\<lparr>last_timestamp := PInt 2000\<rparr>) demo_now (status_response 500))))
     = Some [(''mintime'', ''2001'')]
   \<and> gather_logs (demo_ext\<lparr>hmac_sha1_hexdigest := (\<lambda>key msg. None)\<rparr>) demo_app demo_now
        (status_response 500)
     = (Inr (PBool False), demo_app, None)"
proof -
  have w1: "last_timestamp demo_app = PInt 1000" by (simp add: demo_app_def)
  have w2: "last_timestamp (demo_app\<lparr>last_timestamp := PInt 2000\<rparr>) = PInt 2000" by simp
  have s2001: "py_str_int 2001 = ''2001''"
    by (simp add: py_str_int_def nat_digits.simps digit_char_def)
  from mintime_is_watermark_plus_one [OF w1, of demo_ext demo_now
      "ok_response (logs_body [log_record 1010, log_record 1020, log_record 1030])"]
  have a: "map_option req_params (snd (snd (gather_logs demo_ext demo_app demo_now
       (ok_response (logs_body [log_record 1010, log_record 1020, log_record 1030])))))
     = Some [(''mintime'', ''1001'')]"
    by (simp add: generate_auth_def demo_ext_def demo_app_def Let_def py_str_int_1001)
  from mintime_is_watermark_plus_one [OF w2, of demo_ext demo_now "status_response 500"]
  have b: "map_option req_params (snd (snd (gather_logs demo_ext
         (demo_app\<lparr>last_timestamp := PInt 2000\<rparr>) demo_now (status_response 500))))
     = Some [(''mintime'', ''2001'')]"
    by (simp add: generate_auth_def demo_ext_def demo_app_def Let_def s2001)
  from mintime_is_watermark_plus_one [OF w1,
      of "demo_ext\<lparr>hmac_sha1_hexdigest := (\<lambda>key msg. None)\<rparr>" demo_now "status_response 500"]
  have c: "gather_logs (demo_ext\<lparr>hmac_sha1_hexdigest := (\<lambda>key msg. None)\<rparr>) demo_app demo_now
        (status_response 500) = (Inr (PBool False), demo_app, None)"
    by (simp add: generate_auth_def demo_ext_def Let_def)
  from a b c show ?thesis by simp
qed

text \<open>
  C8 (as amended). When a response passes \<open>_check_http_response\<close> but its body is not
  a JSON object with a \<open>response\<close> array, the call does not return a value: the
  exception raised while decoding (ValueError, TypeError, KeyError or IndexError) reaches
  the caller, and the instance is unchanged.
\<close>

theorem malformed_body_raises:
  assumes "gather_logs ext self now http_get = (res, self', Some request)"
      and "http_get request = Inr response"
      and "check_http_response ext response"
      and "\<not> has_response_array response"
  shows "(res = Inl ValueError \<or> res = Inl TypeError \<or> res = Inl KeyError
            \<or> res = Inl IndexError)
         \<and> self' = self"
proof -
  let ?host = "api_hostname (config_auth self)"
  let ?url = "''https://'' @ ?host @ endpoint (app_class self)"
  from assms(1) have g: "get_duo_logs ext self ?host ?url now http_get = (res, self', Some request)"
    by (simp add: gather_logs_def Let_def)
  from get_duo_logs_outcome [OF g] assms(2,4)
  obtain t hdrs where t: "py_int_add (last_timestamp self) 1 = Inr t"
    and hd: "generate_auth ext self ?host [(''mintime'', py_str_int t)] now = Some hdrs"
    and rq: "request = \<lparr>req_url = ?url, req_headers = hdrs,
                          req_params = [(''mintime'', py_str_int t)]\<rparr>"
    by (auto simp: has_response_array_def)
  from assms(2) rq have rs: "http_get \<lparr>req_url = ?url, req_headers = hdrs,
                          req_params = [(''mintime'', py_str_int t)]\<rparr> = Inr response"
    by simp
  have a: "(res, self', Some request) = get_duo_logs ext self ?host ?url now http_get"
    using g by simp
  show ?thesis
  proof (cases "json_body response")
    case None
    with a t hd rs assms(3) show ?thesis
      by (simp add: get_duo_logs_def response_json_def)
  next
    case (Some body)
    show ?thesis
    proof (cases "py_getitem_str body ''response''")
      case (Inl e)
      then have "e = KeyError \<or> e = TypeError" by (rule py_getitem_str_Inl)
      moreover from a t hd rs assms(3) Some Inl have "res = Inl e \<and> self' = self"
        by (simp add: get_duo_logs_def response_json_def)
      ultimately show ?thesis by auto
    next
      case (Inr logs)
      then obtain d where d: "body = PDict d" "map_of d ''response'' = Some logs"
        using py_getitem_str_Inr by blast
      with Some assms(4) have "\<forall>B. logs \<noteq> PList B"
        by (auto simp: has_response_array_def)
      then obtain e where e: "update_cursor self logs = (Inl e, self)"
        "e = TypeError \<or> e = KeyError \<or> e = IndexError"
        using update_cursor_not_list by blast
      from a t hd rs assms(3) Some Inr e(1) have "res = Inl e \<and> self' = self"
        by (simp add: get_duo_logs_def response_json_def)
      with e(2) show ?thesis by auto
    qed
  qed
qed

theorem malformed_body_raises_witness:
  "fst (gather_logs demo_ext demo_app demo_now (ok_response (PDict [(''stat'', PStr ''OK'')])))
     \<noteq> Inr (PBool False)
   \<and> fst (snd (gather_logs demo_ext demo_app demo_now
              (ok_response (PDict [(''stat'', PStr ''OK'')])))) = demo_app"
proof -
  let ?net = "ok_response (PDict [(''stat'', PStr ''OK'')])"
  let ?G = "gather_logs demo_ext demo_app demo_now ?net"
  let ?resp = "\<lparr>status_code = 200, json_body = Some (PDict [(''stat'', PStr ''OK'')])\<rparr>"
  have sent: "snd (snd ?G) \<noteq> None"
    by (simp add: gather_logs_def get_duo_logs_def generate_auth_def demo_ext_def demo_app_def
        ok_response_def response_json_def Let_def split: prod.splits)
  then have shape: "?G = (fst ?G, fst (snd ?G), Some (the (snd (snd ?G))))"
    by (metis option.collapse prod.collapse)
  have r: "?net (the (snd (snd ?G))) = Inr ?resp" by (simp add: ok_response_def)
  have c: "check_http_response demo_ext ?resp" by (simp add: demo_ext_def)
  have n: "\<not> has_response_array ?resp" by (simp add: has_response_array_def)
  from malformed_body_raises [OF shape r c n] show ?thesis by auto
qed

text \<open>
  The claim as stated has the call return an error value; on a valid response whose body
  is the JSON object \<open>{"stat": "OK"}\<close> the call raises KeyError.
\<close>

theorem malformed_body_counterexample:
  "check_http_response demo_ext \<lparr>status_code = 200, json_body = Some (PDict [(''stat'', PStr ''OK'')])\<rparr>
   \<and> fst (gather_logs demo_ext demo_app demo_now (ok_response (PDict [(''stat'', PStr ''OK'')])))
       = Inl KeyError"
  by (simp add: gather_logs_def get_duo_logs_def generate_auth_def demo_ext_def demo_app_def
        ok_response_def response_json_def Let_def)

section \<open>Request signing\<close>

text \<open>
  C7. The headers \<open>_generate_auth\<close> produces depend on the instance only through its
  credentials and its endpoint: two instances with the same credentials and endpoint,
  whatever their cursors and poll counts, given the same hostname, query parameters and
  clock reading, get the same result; and when the key is accepted the result has exactly
  the headers \<open>Date\<close>, \<open>Authorization\<close> and \<open>Host\<close>.
\<close>

theorem generate_auth_deterministic:
  assumes "config_auth self1 = config_auth self2" and "app_class self1 = app_class self2"
  shows "generate_auth ext self1 hostname params now
           = generate_auth ext self2 hostname params now
         \<and> (generate_auth ext self1 hostname params now \<noteq> None \<longrightarrow>
              map fst (the (generate_auth ext self1 hostname params now))
                = [''Date'', ''Authorization'', ''Host''])"
  using assms
  by (simp add: generate_auth_def auth_string_def Let_def split: option.splits)

theorem generate_auth_deterministic_witness:
  "generate_auth demo_ext demo_app ''api-12345678.duosecurity.com'' [(''mintime'', ''1001'')] demo_now
     = generate_auth demo_ext
         (demo_app\<lparr>last_timestamp := PInt 2000, more_to_poll := True, poll_count := 7\<rparr>)
         ''api-12345678.duosecurity.com'' [(''mintime'', ''1001'')] demo_now
   \<and> generate_auth demo_ext demo_app ''api-12345678.duosecurity.com'' [(''mintime'', ''1001'')] demo_now
       \<noteq> None"
proof -
  have v: "generate_auth demo_ext demo_app ''api-12345678.duosecurity.com''
             [(''mintime'', ''1001'')] demo_now \<noteq> None"
    by (simp add: generate_auth_def demo_ext_def demo_app_def Let_def)
  from generate_auth_deterministic [of demo_app
      "demo_app\<lparr>last_timestamp := PInt 2000, more_to_poll := True, poll_count := 7\<rparr>"
      demo_ext "''api-12345678.duosecurity.com''" "[(''mintime'', ''1001'')]" demo_now] v
  show ?thesis by simp
qed

lemma generate_auth_unfolded:
  "generate_auth ext self hostname params now =
     (case hmac_sha1_hexdigest ext (secret_key (config_auth self))
             (strftime ext now ''%a, %d %b %Y %H:%M:%S -0000'' @ [CHR 0x0A]
              @ ''GET'' @ [CHR 0x0A]
              @ hostname @ [CHR 0x0A]
              @ endpoint (app_class self) @ [CHR 0x0A]
              @ urlencode ext params) of
        None \<Rightarrow> None
      | Some digest \<Rightarrow>
          Some [(''Date'', strftime ext now ''%a, %d %b %Y %H:%M:%S -0000''),
                (''Authorization'',
                   ''Basic '' @ b64encode ext (integration_key (config_auth self) @ '':'' @ digest)),
                (''Host'', hostname)])"
  by (simp add: generate_auth_def auth_string_def Let_def split: option.splits)

text \<open>
  C9. For a hostname of the format \<open>required_auth_info\<close> declares for
  \<open>api_hostname\<close>, the text that is signed is five fields joined by newlines: the date
  formatted with \<open>%a, %d %b %Y %H:%M:%S -0000\<close>, the method \<open>GET\<close>, the lower case
  form of the hostname, the endpoint path and the URL-encoded query parameters; the
  \<open>Date\<close> header is that same formatted date.
\<close>

theorem signed_text_fields:
  assumes "api_hostname_format hostname"
  shows "generate_auth ext self hostname params now =
     (case hmac_sha1_hexdigest ext (secret_key (config_auth self))
             (strftime ext now ''%a, %d %b %Y %H:%M:%S -0000'' @ [CHR 0x0A]
              @ ''GET'' @ [CHR 0x0A]
              @ py_lower hostname @ [CHR 0x0A]
              @ endpoint (app_class self) @ [CHR 0x0A]
              @ urlencode ext params) of
        None \<Rightarrow> None
      | Some digest \<Rightarrow>
          Some [(''Date'', strftime ext now ''%a, %d %b %Y %H:%M:%S -0000''),
                (''Authorization'',
                   ''Basic '' @ b64encode ext (integration_key (config_auth self) @ '':'' @ digest)),
                (''Host'', hostname)])"
  using api_hostname_format_lower [OF assms]
  by (simp add: generate_auth_unfolded)

theorem signed_text_fields_witness:
  "generate_auth demo_ext demo_app ''api-12345678.duosecurity.com'' [(''mintime'', ''1001'')] demo_now
     = Some [(''Date'', demo_now),
             (''Authorization'',
                ''Basic '' @ ''DIABCDEFGHIJKLMN1234'' @ '':''
                  @ ''abcdefghijklmnopqrstuvwxyz0123456789ABCD''
                  @ demo_now @ [CHR 0x0A] @ ''GET'' @ [CHR 0x0A]
                  @ py_lower ''api-12345678.duosecurity.com'' @ [CHR 0x0A]
                  @ ''/admin/v1/logs/authentication'' @ [CHR 0x0A] @ ''mintime=1001''),
             (''Host'', ''api-12345678.duosecurity.com'')]"
proof -
  have f: "api_hostname_format ''api-12345678.duosecurity.com''"
    by (simp add: api_hostname_format_def hex_lower_digit_def Let_def)
  from signed_text_fields [OF f, of demo_ext demo_app "[(''mintime'', ''1001'')]" demo_now]
  show ?thesis
    by (simp add: demo_ext_def demo_app_def)
qed

section \<open>The watermark across polls\<close>

text \<open>
  C6. Start from an integer watermark and run any sequence of polls in which every record
  the provider returns has an integer timestamp not before the \<open>mintime\<close> of the
  request it answers. Then the watermark is an integer after every prefix of the sequence,
  and it never decreases: it is at least the initial one after any prefix, and at least
  that after any longer prefix.
\<close>

theorem watermark_monotone:
  assumes "last_timestamp self = PInt w"
      and "polls_respect_mintime ext self (earlier @ later)"
  shows "\<exists>a b. last_timestamp (poll_all ext self earlier) = PInt a
               \<and> last_timestamp (poll_all ext self (earlier @ later)) = PInt b
               \<and> w \<le> a \<and> a \<le> b"
proof -
  from assms(2) have e: "polls_respect_mintime ext self earlier"
    and l: "polls_respect_mintime ext (poll_all ext self earlier) later"
    by (simp_all add: polls_respect_mintime_append)
  from poll_all_watermark [OF assms(1) e]
  obtain a where a: "last_timestamp (poll_all ext self earlier) = PInt a" "w \<le> a" by blast
  from poll_all_watermark [OF a(1) l]
  obtain b where "last_timestamp (poll_all ext (poll_all ext self earlier) later) = PInt b"
    "a \<le> b" by blast
  with a show ?thesis by (auto simp: poll_all_append)
qed

theorem watermark_monotone_witness:
  "last_timestamp (poll_all demo_ext demo_app
      [(demo_now, ok_response (logs_body [log_record 1010, log_record 1020, log_record 1030]))])
     = PInt 1030
   \<and> last_timestamp (poll_all demo_ext demo_app
      [(demo_now, ok_response (logs_body [log_record 1010, log_record 1020, log_record 1030])),
       (demo_now, status_response 500),
       (demo_now, ok_response (logs_body [log_record 1031, log_record 1031]))])
     = PInt 1031"
proof -
  let ?p1 = "(demo_now, ok_response (logs_body [log_record 1010, log_record 1020, log_record 1030]))"
  let ?p2 = "(demo_now, status_response 500)"
  let ?p3 = "(demo_now, ok_response (logs_body [log_record 1031, log_record 1031]))"
  have d0: "demo_app = demo_app\<lparr>last_timestamp := PInt 1000, more_to_poll := False\<rparr>"
    by (simp add: demo_app_def)
  have g1: "gather_logs demo_ext demo_app demo_now (ok_response (logs_body [log_record 1010, log_record 1020, log_record 1030]))
      = (Inr (PList [log_record 1010, log_record 1020, log_record 1030]),
         demo_app\<lparr>last_timestamp := PInt 1030, more_to_poll := False\<rparr>,
         Some \<lparr>req_url = ''https://api-12345678.duosecurity.com/admin/v1/logs/authentication'',
                  req_headers = the (generate_auth demo_ext demo_app ''api-12345678.duosecurity.com''
                                       [(''mintime'', py_str_int 1001)] demo_now),
                  req_params = [(''mintime'', py_str_int 1001)]\<rparr>)"
    using gather_logs_demo [where B = "[log_record 1010, log_record 1020, log_record 1030]"
        and ts = "PInt 1030" and w = 1000 and m = False]
    by (simp add: log_record_def d0 [symmetric])
  have g2: "gather_logs demo_ext (demo_app\<lparr>last_timestamp := PInt 1030, more_to_poll := False\<rparr>)
       demo_now (status_response 500)
      = (Inr (PBool False), demo_app\<lparr>last_timestamp := PInt 1030, more_to_poll := False\<rparr>,
         Some \<lparr>req_url = ''https://api-12345678.duosecurity.com/admin/v1/logs/authentication'',
                  req_headers = the (generate_auth demo_ext demo_app ''api-12345678.duosecurity.com''
                                       [(''mintime'', py_str_int 1031)] demo_now),
                  req_params = [(''mintime'', py_str_int 1031)]\<rparr>)"
    by (simp add: gather_logs_def get_duo_logs_def generate_auth_def auth_string_def demo_ext_def
      demo_app_def status_response_def Let_def)
  have g3: "gather_logs demo_ext (demo_app\<lparr>last_timestamp := PInt 1030, more_to_poll := False\<rparr>)
       demo_now (ok_response (logs_body [log_record 1031, log_record 1031]))
      = (Inr (PList [log_record 1031, log_record 1031]),
         demo_app\<lparr>last_timestamp := PInt 1031, more_to_poll := False\<rparr>,
         Some \<lparr>req_url = ''https://api-12345678.duosecurity.com/admin/v1/logs/authentication'',
                  req_headers = the (generate_auth demo_ext demo_app ''api-12345678.duosecurity.com''
                                       [(''mintime'', py_str_int 1031)] demo_now),
                  req_params = [(''mintime'', py_str_int 1031)]\<rparr>)"
    using gather_logs_demo [where B = "[log_record 1031, log_record 1031]"
        and ts = "PInt 1031" and w = 1030 and m = False]
    by (simp add: log_record_def)
  have w: "last_timestamp demo_app = PInt 1000" by (simp add: demo_app_def)
  have ok: "polls_respect_mintime demo_ext demo_app ([?p1] @ [?p2, ?p3])"
    apply (simp add: g1 g2 g3 provider_respects_mintime_def int_of_decimal_py_str_int)
    apply (simp add: returned_records_def ok_response_def status_response_def logs_body_def
        record_not_before_def log_record_def)
    done
  from watermark_monotone [OF w ok] show ?thesis
    by (simp add: g1 g2 g3)
qed

end
